theory Spec2Isabelle
  imports Complex_Main
begin

section \<open>The reading store\<close>

text \<open>
  The two SQLite tables, \<open>power_data\<close> (written by the monitor) and
  \<open>daily_consumption\<close> (written by the calculator), are modelled as one store value
  that every operation takes and returns.

  Timestamps are the ISO-8601 UTC texts produced by \<open>Date.toISOString()\<close>; they are
  represented by the instant they denote, in milliseconds since the epoch. On texts of this
  fixed format the text comparison of SQL (\<open>timestamp >= ?\<close>, \<open>ORDER BY timestamp\<close>) and
  the order of \<open>julianday\<close> both agree with the order of the instants. A date text
  \<open>YYYY-MM-DD\<close> is represented by its day number since the epoch. JavaScript numbers and
  SQL REAL values are represented by real numbers.
\<close>

type_synonym instant = int
type_synonym date = int

text \<open>
  The metadata column holds JSON text: \<open>{context}\<close> for a scraped reading, and the
  transition (previous status, current status, event type, detection time) for an event.
\<close>

datatype metadata =
  DataContext "string option"
| StatusChange "string option" "string option" string instant

text \<open>
  A fingerprint is the MD5 digest of a key text that ends in the timestamp cut to the minute
  (\<open>substring(0, 16)\<close>). It is represented by the key itself: the part before the
  timestamp and the minute number.
\<close>

datatype fingerprint = Md5 string int

record power_row =
  timestamp :: instant
  category :: string
  source :: string
  status :: "string option"
  consumption_value :: "real option"
  consumption_unit :: "string option"
  period :: "string option"
  confidence :: "real option"
  metadata :: metadata
  fingerprint :: fingerprint

record coverage =
  recordCount :: nat
  firstRecord :: "instant option"
  lastRecord :: "instant option"
  hasGaps :: bool

record daily_result =
  date :: date
  midnightReading :: "real option"
  midnightTimestamp :: instant
  currentReading :: "real option"
  currentTimestamp :: instant
  calculatedConsumption :: real
  isComplete :: bool
  hasMonitoringGaps :: bool
  confidenceScore :: real
  coverage :: coverage

text \<open>
  Every sqlite3 call of the source hands an \<open>err\<close> to its callback. The store says for
  each kind of call whether it reports an error; a call that does rejects its promise with
  \<open>StoreIOError\<close> (\<open>UniqueConstraint\<close> is the error of an insert whose
  fingerprint is already stored). \<open>TypeError\<close> and \<open>RangeError\<close> are the JavaScript exceptions of
  calling a missing method and of formatting an invalid Date.
\<close>

datatype db_op =
  CreateDailyTable
| SelectMidnight
| SelectLatest
| SelectCoverage
| UpsertDaily
| SelectTarget
| SelectLastStatus
| InsertEvent
| InsertData

datatype error = StoreIOError | UniqueConstraint | TypeError | RangeError

record store =
  power_data :: "power_row list"
  daily_consumption :: "date \<rightharpoonup> daily_result"
  failing :: "db_op \<Rightarrow> bool"

subsection \<open>JavaScript and SQL idioms\<close>

text \<open>\<open>x || d\<close> on a number that may be null: null and 0 are falsy.\<close>

fun js_or :: "real option \<Rightarrow> real \<Rightarrow> real" where
  "js_or None d = d"
| "js_or (Some x) d = (if x = 0 then d else x)"

text \<open>ToNumber, as applied by the subtraction: null counts as 0.\<close>

fun js_num :: "real option \<Rightarrow> real" where
  "js_num None = 0"
| "js_num (Some x) = x"

text \<open>
  \<open>LIMIT 1\<close> with \<open>db.get\<close>: the first row of the ordered result, or no row.
  \<open>ORDER BY\<close> is \<open>sort_key\<close>; rows with equal keys stay in table order.
\<close>

definition limit1 :: "'a list \<Rightarrow> 'a option" where
  "limit1 xs = (case xs of [] \<Rightarrow> None | x # _ \<Rightarrow> Some x)"

section \<open>Daily consumption calculator\<close>

definition initDatabase :: "store \<Rightarrow> error + unit" where
  "initDatabase db = (if failing db CreateDailyTable then Inl StoreIOError else Inr ())"

definition getTodayDate :: "instant \<Rightarrow> date" where
  "getTodayDate now = now div 86400000"

definition getMidnightTimestamp :: "date \<Rightarrow> instant" where
  "getMidnightTimestamp dateStr = dateStr * 86400000"

definition getLatestMeterReading :: "store \<Rightarrow> error + power_row option" where
  "getLatestMeterReading db =
     (if failing db SelectLatest then Inl StoreIOError
      else Inr (limit1 (sort_key (\<lambda>r. - timestamp r)
        (filter (\<lambda>r. category r = ''meter_reading''
                    \<and> source r = ''grid''
                    \<and> consumption_value r \<noteq> None)
           (power_data db)))))"

definition getMidnightMeterReading :: "store \<Rightarrow> date \<Rightarrow> error + power_row option" where
  "getMidnightMeterReading db dateStr =
     (let midnightTime = getMidnightTimestamp dateStr;
          nextMidnight = getMidnightTimestamp
            (getTodayDate (getMidnightTimestamp dateStr + 24 * 60 * 60 * 1000))
      in if failing db SelectMidnight then Inl StoreIOError
         else Inr (limit1 (sort_key (\<lambda>r. \<bar>timestamp r - midnightTime\<bar>)
           (filter (\<lambda>r. category r = ''meter_reading''
                       \<and> source r = ''grid''
                       \<and> consumption_value r \<noteq> None
                       \<and> timestamp r \<ge> midnightTime
                       \<and> timestamp r < nextMidnight)
              (power_data db)))))"

definition min_list_opt :: "int list \<Rightarrow> int option" where
  "min_list_opt xs = (case xs of [] \<Rightarrow> None | y # ys \<Rightarrow> Some (fold min ys y))"

definition max_list_opt :: "int list \<Rightarrow> int option" where
  "max_list_opt xs = (case xs of [] \<Rightarrow> None | y # ys \<Rightarrow> Some (fold max ys y))"

definition checkMonitoringCoverage :: "store \<Rightarrow> date \<Rightarrow> error + coverage" where
  "checkMonitoringCoverage db dateStr =
     (let startTime = getMidnightTimestamp dateStr;
          endTime = getMidnightTimestamp
            (getTodayDate (getMidnightTimestamp dateStr + 24 * 60 * 60 * 1000));
          rows = filter (\<lambda>r. timestamp r \<ge> startTime \<and> timestamp r < endTime
                            \<and> category r = ''meter_reading''
                            \<and> source r = ''grid'')
                   (power_data db)
      in if failing db SelectCoverage then Inl StoreIOError
         else Inr \<lparr> recordCount = length rows,
                    firstRecord = min_list_opt (map timestamp rows),
                    lastRecord = max_list_opt (map timestamp rows),
                    hasGaps = (length rows < 12) \<rparr>)"

text \<open>
  \<open>INSERT OR REPLACE\<close> on the table whose \<open>date\<close> column is unique. The stored row is
  the result object (the notes column is derived from its coverage).
\<close>

definition saveDailyConsumption :: "store \<Rightarrow> daily_result \<Rightarrow> error + store" where
  "saveDailyConsumption db data =
     (if failing db UpsertDaily then Inl StoreIOError
      else Inr (db\<lparr> daily_consumption := (daily_consumption db)(date data \<mapsto> data) \<rparr>))"

text \<open>
  The body of the \<open>try\<close> block of \<open>calculateDailyConsumption\<close>. The two log lines
  (also the one for a consumption above 100) have no effect on the result.
\<close>

definition calculate_try ::
  "instant \<Rightarrow> store \<Rightarrow> date \<Rightarrow> (error + daily_result option) \<times> store" where
  "calculate_try now db dateStr =
     (case getMidnightMeterReading db dateStr of
        Inl e \<Rightarrow> (Inl e, db)
      | Inr None \<Rightarrow> (Inr None, db)
      | Inr (Some midnightRow) \<Rightarrow>
     (case getLatestMeterReading db of
        Inl e \<Rightarrow> (Inl e, db)
      | Inr None \<Rightarrow> (Inr None, db)
      | Inr (Some currentRow) \<Rightarrow>
     (case checkMonitoringCoverage db dateStr of
        Inl e \<Rightarrow> (Inl e, db)
      | Inr cov \<Rightarrow>
     (let consumption = js_num (consumption_value currentRow)
                        - js_num (consumption_value midnightRow)
      in if consumption < 0 then (Inr None, db)
         else
          (let score0 = min (js_or (confidence midnightRow) 0.8)
                            (js_or (confidence currentRow) 0.8);
               score = (if hasGaps cov then score0 * 0.7 else score0);
               result = \<lparr> date = dateStr,
                          midnightReading = consumption_value midnightRow,
                          midnightTimestamp = timestamp midnightRow,
                          currentReading = consumption_value currentRow,
                          currentTimestamp = timestamp currentRow,
                          calculatedConsumption = consumption,
                          isComplete = (dateStr < getTodayDate now),
                          hasMonitoringGaps = hasGaps cov,
                          confidenceScore = score,
                          coverage = cov \<rparr>
           in case saveDailyConsumption db result of
                Inl e \<Rightarrow> (Inl e, db)
              | Inr db' \<Rightarrow> (Inr (Some result), db'))))))"

text \<open>
  \<open>calculateDailyConsumption(dateStr = null)\<close>: a missing date means today;
  \<open>initDatabase\<close> runs before the \<open>try\<close>, so its failure is thrown to the caller;
  the \<open>catch\<close> turns every error of the body into a null result.
\<close>

definition calculateDailyConsumption ::
  "instant \<Rightarrow> store \<Rightarrow> date option \<Rightarrow> (error + daily_result option) \<times> store" where
  "calculateDailyConsumption now db dateArg =
     (let dateStr = (case dateArg of None \<Rightarrow> getTodayDate now | Some d \<Rightarrow> d)
      in case initDatabase db of
           Inl e \<Rightarrow> (Inl e, db)
         | Inr _ \<Rightarrow>
            (case calculate_try now db dateStr of
               (Inl e, db') \<Rightarrow> (Inr None, db')
             | (Inr r, db') \<Rightarrow> (Inr r, db')))"

text \<open>
  \<open>backfillDailyConsumptions(days)\<close>: the loop \<open>for (i = days - 1; i >= 0; i--)\<close>.
  Every iteration reads the clock afresh: \<open>Date.now()\<close> at the top of the loop body, for
  the date, and \<open>getTodayDate()\<close> inside its call of \<open>calculateDailyConsumption\<close>.
  \<open>clock i\<close> is the pair of these two readings in the iteration with loop variable
  \<open>i\<close>. The loop has no \<open>catch\<close>: a thrown error leaves it.
\<close>

function backfill_loop ::
  "(int \<Rightarrow> instant \<times> instant) \<Rightarrow> int \<Rightarrow> store \<Rightarrow> daily_result list
     \<Rightarrow> (error + daily_result list) \<times> store" where
  "backfill_loop clock i db results =
     (if i \<ge> 0 then
        (case calculateDailyConsumption (snd (clock i)) db
                (Some (getTodayDate (fst (clock i) - i * (24 * 60 * 60 * 1000)))) of
           (Inl e, db') \<Rightarrow> (Inl e, db')
         | (Inr None, db') \<Rightarrow> backfill_loop clock (i - 1) db' results
         | (Inr (Some result), db') \<Rightarrow> backfill_loop clock (i - 1) db' (results @ [result]))
      else (Inr results, db))"
  by pat_completeness auto
termination
  by (relation "measure (\<lambda>(clock, i, db, results). nat (i + 1))") auto

declare backfill_loop.simps [simp del]

definition backfillDailyConsumptions ::
  "(int \<Rightarrow> instant \<times> instant) \<Rightarrow> store \<Rightarrow> int
     \<Rightarrow> (error + daily_result list) \<times> store" where
  "backfillDailyConsumptions clock db days = backfill_loop clock (days - 1) db []"

text \<open>The object returned by \<open>getTodayConsumption\<close> and \<open>getConsumptionAtTime\<close>.\<close>

record consumption_info =
  info_value :: real
  info_unit :: string
  info_period :: string
  info_timestamp :: instant
  info_confidence :: real
  isRealTimeCalculated :: bool
  info_midnightReading :: "real option"
  info_currentReading :: "real option"
  info_hasGaps :: bool

definition getTodayConsumption ::
  "instant \<Rightarrow> store \<Rightarrow> (error + consumption_info option) \<times> store" where
  "getTodayConsumption now db =
     (let today = getTodayDate now
      in case calculateDailyConsumption now db (Some today) of
           (Inl e, db') \<Rightarrow> (Inl e, db')
         | (Inr None, db') \<Rightarrow> (Inr None, db')
         | (Inr (Some result), db') \<Rightarrow>
             (Inr (Some \<lparr> info_value = calculatedConsumption result,
                           info_unit = ''UNITS'',
                           info_period = ''today'',
                           info_timestamp = currentTimestamp result,
                           info_confidence = confidenceScore result,
                           isRealTimeCalculated = True,
                           info_midnightReading = midnightReading result,
                           info_currentReading = currentReading result,
                           info_hasGaps = hasMonitoringGaps result \<rparr>), db'))"

text \<open>
  \<open>getConsumptionAtTime\<close> calls \<open>this.getMidnightReading\<close>. The class has no method
  of that name (its method is \<open>getMidnightMeterReading\<close>), so the call throws TypeError.
\<close>

definition getMidnightReading :: "store \<Rightarrow> date \<Rightarrow> error + power_row option" where
  "getMidnightReading db dateStr = Inl TypeError"

text \<open>\<open>targetTime.toISOString()\<close>: a Date is an instant, or the invalid Date.\<close>

definition toISOString :: "instant option \<Rightarrow> error + instant" where
  "toISOString t = (case t of None \<Rightarrow> Inl RangeError | Some ms \<Rightarrow> Inr ms)"

definition getTargetReading :: "store \<Rightarrow> instant \<Rightarrow> error + power_row option" where
  "getTargetReading db targetTimestamp =
     (if failing db SelectTarget then Inl StoreIOError
      else Inr (limit1 (sort_key (\<lambda>r. - timestamp r)
        (filter (\<lambda>r. timestamp r \<le> targetTimestamp
                    \<and> category r = ''meter_reading''
                    \<and> source r = ''grid''
                    \<and> consumption_value r \<noteq> None)
           (power_data db)))))"

definition consumptionAtTime_try ::
  "instant \<Rightarrow> store \<Rightarrow> date \<Rightarrow> instant option
     \<Rightarrow> (error + consumption_info option) \<times> store" where
  "consumptionAtTime_try now db dateStr targetTime =
     (if dateStr = getTodayDate now then getTodayConsumption now db
      else
       (let startTime = getMidnightTimestamp dateStr
        in case toISOString targetTime of
             Inl e \<Rightarrow> (Inl e, db)
           | Inr targetTimestamp \<Rightarrow>
          (case getMidnightReading db dateStr of
             Inl e \<Rightarrow> (Inl e, db)
           | Inr None \<Rightarrow> (Inr None, db)
           | Inr (Some midnightRow) \<Rightarrow>
          (case getTargetReading db targetTimestamp of
             Inl e \<Rightarrow> (Inl e, db)
           | Inr None \<Rightarrow> (Inr None, db)
           | Inr (Some targetRow) \<Rightarrow>
          (let consumption = js_num (consumption_value targetRow)
                             - js_num (consumption_value midnightRow)
           in if consumption < 0 then (Inr None, db)
              else (Inr (Some \<lparr> info_value = consumption,
                                 info_unit = ''UNITS'',
                                 info_period = ''today'',
                                 info_timestamp = timestamp targetRow,
                                 info_confidence = 0.9,
                                 isRealTimeCalculated = False,
                                 info_midnightReading = consumption_value midnightRow,
                                 info_currentReading = consumption_value targetRow,
                                 info_hasGaps = False \<rparr>), db))))))"

definition getConsumptionAtTime ::
  "instant \<Rightarrow> store \<Rightarrow> date \<Rightarrow> instant option
     \<Rightarrow> (error + consumption_info option) \<times> store" where
  "getConsumptionAtTime now db dateStr targetTime =
     (case initDatabase db of
        Inl e \<Rightarrow> (Inl e, db)
      | Inr _ \<Rightarrow>
         (case consumptionAtTime_try now db dateStr targetTime of
            (Inl e, db') \<Rightarrow> (Inr None, db')
          | (Inr r, db') \<Rightarrow> (Inr r, db')))"

section \<open>Status tracker of the monitor\<close>













section \<open>The confidence formula as the specification words it\<close>

text \<open>
  \<open>min(anchor.confidence ?? 0.8, current.confidence ?? 0.8) * (0.7 if hasGaps else 1.0)\<close>:
  the default 0.8 stands in for an absent confidence only.
\<close>

definition spec_confidence :: "real option \<Rightarrow> real option \<Rightarrow> bool \<Rightarrow> real" where
  "spec_confidence anchor current gaps =
     min (case anchor of None \<Rightarrow> 0.8 | Some x \<Rightarrow> x)
         (case current of None \<Rightarrow> 0.8 | Some x \<Rightarrow> x)
       * (if gaps then 0.7 else 1.0)"

section \<open>Example stores\<close>

text \<open>
  Concrete stores on which the operations are evaluated. Day 1 starts at 86400000, day 2
  at 172800000, day 7 at 604800000 and day 10 at 864000000.
\<close>

definition example_meter :: "instant \<Rightarrow> real \<Rightarrow> real option \<Rightarrow> power_row" where
  "example_meter ts v c =
     \<lparr> timestamp = ts, category = ''meter_reading'', source = ''grid'', status = None,
       consumption_value = Some v, consumption_unit = Some ''KWH'',
       period = Some ''cumulative'', confidence = c, metadata = DataContext None,
       fingerprint = Md5 ''meter_reading_grid'' (ts div 60000) \<rparr>"

definition example_store :: "power_row list \<Rightarrow> store" where
  "example_store rows =
     \<lparr> power_data = rows, daily_consumption = Map.empty, failing = (\<lambda>op. False) \<rparr>"

definition two_day_store :: store where
  "two_day_store = example_store
     [example_meter 89100000 100 (Some 1),
      example_meter 86460000 99 (Some 1),
      example_meter 172680000 105 (Some 1),
      example_meter 208800000 110 (Some 1)]"

definition two_day_result :: daily_result where
  "two_day_result =
     \<lparr> date = 1, midnightReading = Some 99, midnightTimestamp = 86460000,
       currentReading = Some 110, currentTimestamp = 208800000,
       calculatedConsumption = 11, isComplete = True, hasMonitoringGaps = True,
       confidenceScore = 0.7,
       coverage = \<lparr> recordCount = 3, firstRecord = Some 86460000,
                    lastRecord = Some 172680000, hasGaps = True \<rparr> \<rparr>"

definition rollback_store :: store where
  "rollback_store = example_store
     [example_meter 86460000 100 (Some 1),
      example_meter 122400000 95 (Some 1)]"

definition zero_confidence_store :: store where
  "zero_confidence_store = example_store
     [example_meter 86460000 100 (Some 0),
      example_meter 122400000 105 (Some 1)]"

definition zero_confidence_result :: daily_result where
  "zero_confidence_result =
     \<lparr> date = 1, midnightReading = Some 100, midnightTimestamp = 86460000,
       currentReading = Some 105, currentTimestamp = 122400000,
       calculatedConsumption = 5, isComplete = False, hasMonitoringGaps = True,
       confidenceScore = 0.56,
       coverage = \<lparr> recordCount = 2, firstRecord = Some 86460000,
                    lastRecord = Some 122400000, hasGaps = True \<rparr> \<rparr>"

definition overconfident_store :: store where
  "overconfident_store = example_store
     [example_meter 86460000 100 (Some 1.5),
      example_meter 122400000 105 (Some 1.5)]"

definition overconfident_result :: daily_result where
  "overconfident_result =
     \<lparr> date = 1, midnightReading = Some 100, midnightTimestamp = 86460000,
       currentReading = Some 105, currentTimestamp = 122400000,
       calculatedConsumption = 5, isComplete = False, hasMonitoringGaps = True,
       confidenceScore = 1.05,
       coverage = \<lparr> recordCount = 2, firstRecord = Some 86460000,
                    lastRecord = Some 122400000, hasGaps = True \<rparr> \<rparr>"

definition failing_store :: "db_op \<Rightarrow> store" where
  "failing_store bad = two_day_store \<lparr> failing := (\<lambda>op. op = bad) \<rparr>"




definition steady_clock :: "instant \<Rightarrow> int \<Rightarrow> instant \<times> instant" where
  "steady_clock t i = (t, t)"










section \<open>Properties of the queries\<close>

lemmas example_defs = two_day_store_def example_store_def example_meter_def rollback_store_def
  two_day_result_def
lemmas query_defs = getMidnightMeterReading_def getLatestMeterReading_def
  checkMonitoringCoverage_def getMidnightTimestamp_def getTodayDate_def limit1_def
  min_list_opt_def max_list_opt_def saveDailyConsumption_def initDatabase_def Let_def
lemmas calc_defs = calculateDailyConsumption_def calculate_try_def
lemmas example_defs2 = example_defs zero_confidence_store_def zero_confidence_result_def
  overconfident_store_def overconfident_result_def failing_store_def




lemma limit1_sort_key_Some:
  fixes f :: "'a \<Rightarrow> int"
  assumes "limit1 (sort_key f xs) = Some r"
  shows "r \<in> set xs \<and> (\<forall>y \<in> set xs. f r \<le> f y)"
proof -
  from assms obtain rest where eq: "sort_key f xs = r # rest"
    by (cases "sort_key f xs") (simp_all add: limit1_def)
  have mem: "set (r # rest) = set xs"
    using eq set_sort [of f xs] by simp
  have "sorted (map f (r # rest))"
    using eq sorted_sort_key [of f xs] by simp
  then have "\<forall>y \<in> set rest. f r \<le> f y" by simp
  with mem show ?thesis by auto
qed

lemma next_midnight:
  "getMidnightTimestamp (getTodayDate (getMidnightTimestamp d + 24 * 60 * 60 * 1000))
   = getMidnightTimestamp (d + 1)"
  by (simp add: getMidnightTimestamp_def getTodayDate_def)

lemma midnight_reading_member:
  assumes "getMidnightMeterReading db d = Inr (Some r)"
  shows "r \<in> set (power_data db) \<and> category r = ''meter_reading'' \<and> source r = ''grid''"
proof -
  from assms have "limit1 (sort_key (\<lambda>r. \<bar>timestamp r - getMidnightTimestamp d\<bar>)
        (filter (\<lambda>r. category r = ''meter_reading'' \<and> source r = ''grid''
                    \<and> consumption_value r \<noteq> None
                    \<and> timestamp r \<ge> getMidnightTimestamp d
                    \<and> timestamp r < getMidnightTimestamp (d + 1)) (power_data db))) = Some r"
    unfolding getMidnightMeterReading_def Let_def next_midnight
    by (simp split: if_splits)
  from limit1_sort_key_Some [OF this] show ?thesis by simp
qed

lemma latest_reading_member:
  assumes "getLatestMeterReading db = Inr (Some r)"
  shows "r \<in> set (power_data db) \<and> category r = ''meter_reading'' \<and> source r = ''grid''"
proof -
  from assms have "limit1 (sort_key (\<lambda>r. - timestamp r)
        (filter (\<lambda>r. category r = ''meter_reading'' \<and> source r = ''grid''
                    \<and> consumption_value r \<noteq> None) (power_data db))) = Some r"
    unfolding getLatestMeterReading_def by (simp split: if_splits)
  from limit1_sort_key_Some [OF this] show ?thesis by simp
qed

lemma js_or_unit:
  assumes "\<forall>x. c = Some x \<longrightarrow> 0 \<le> x \<and> x \<le> 1"
  shows "0 \<le> js_or c 0.8 \<and> js_or c 0.8 \<le> 1"
  using assms by (cases c) simp_all


lemma calculate_success_reads:
  assumes "calculateDailyConsumption now db dateArg = (Inr (Some r), db')"
  shows "\<exists>m. getMidnightMeterReading db (date r) = Inr (Some m)"
    and "\<exists>c. getLatestMeterReading db = Inr (Some c)"
    and "\<exists>cov. checkMonitoringCoverage db (date r) = Inr cov"
  using assms
  by (auto simp add: calculateDailyConsumption_def calculate_try_def initDatabase_def
        saveDailyConsumption_def Let_def
        split: sum.splits option.splits if_splits)

lemma calculate_success_values:
  assumes "calculateDailyConsumption now db dateArg = (Inr (Some r), db')"
    and "getMidnightMeterReading db (date r) = Inr (Some m)"
    and "getLatestMeterReading db = Inr (Some c)"
    and "checkMonitoringCoverage db (date r) = Inr cov"
  shows "calculatedConsumption r = js_num (consumption_value c) - js_num (consumption_value m)"
    and "\<not> calculatedConsumption r < 0"
    and "hasMonitoringGaps r = hasGaps cov"
    and "confidenceScore r =
          min (js_or (confidence m) 0.8) (js_or (confidence c) 0.8)
            * (if hasGaps cov then 0.7 else 1)"
    and "db' = db\<lparr> daily_consumption := (daily_consumption db)(date r \<mapsto> r) \<rparr>"
  using assms
  by (auto simp add: calculateDailyConsumption_def calculate_try_def initDatabase_def
        saveDailyConsumption_def Let_def
        split: sum.splits option.splits if_splits)
































section \<open>The current reading of a past day\<close>

text \<open>
  C1. The claim: for a past date the current reading is the last grid meter reading before
  the next midnight of that date. Evaluated on a store with readings on day 1 (99 at 00:01,
  100 at 00:45, 105 at 23:58) and on day 2 (110 at 10:00), at noon of day 2:
  \<open>calculateDailyConsumption\<close> for day 1 takes the reading of day 2 at 10:00 as the
  current reading, although the reading of 23:58 on day 1 is in the store, and records a
  consumption of 11 for a day marked complete.
\<close>

theorem past_day_uses_latest_overall:
  "fst (calculateDailyConsumption 216000000 two_day_store (Some 1)) = Inr (Some two_day_result)
   \<and> getTodayDate 216000000 = 2
   \<and> date two_day_result = 1
   \<and> isComplete two_day_result
   \<and> currentReading two_day_result = Some 110
   \<and> \<not> currentTimestamp two_day_result < getMidnightTimestamp (1 + 1)
   \<and> example_meter 172680000 105 (Some 1) \<in> set (power_data two_day_store)
   \<and> timestamp (example_meter 172680000 105 (Some 1)) < getMidnightTimestamp (1 + 1)"
  by (simp add: calc_defs example_defs query_defs)

section \<open>Negative consumption\<close>

text \<open>
  C3. For every date and store: when the current reading's value minus the midnight
  reading's value is negative, \<open>calculateDailyConsumption\<close> returns no result (null;
  the thrown initialisation error when the table cannot be created) and leaves the store
  as it was: no row of \<open>daily_consumption\<close> is inserted or replaced, and no record with
  a consumption of zero is made.
\<close>

theorem negative_consumption_not_persisted:
  assumes "getMidnightMeterReading db (case dateArg of None \<Rightarrow> getTodayDate now | Some d \<Rightarrow> d)
             = Inr (Some m)"
    and "getLatestMeterReading db = Inr (Some c)"
    and "js_num (consumption_value c) - js_num (consumption_value m) < 0"
  shows "calculateDailyConsumption now db dateArg
           = (if failing db CreateDailyTable then Inl StoreIOError else Inr None, db)"
  using assms
  by (simp add: calculateDailyConsumption_def calculate_try_def initDatabase_def Let_def
        split: sum.splits option.splits)

theorem negative_consumption_not_persisted_witness:
  "getMidnightMeterReading rollback_store 1 = Inr (Some (example_meter 86460000 100 (Some 1)))
   \<and> getLatestMeterReading rollback_store = Inr (Some (example_meter 122400000 95 (Some 1)))
   \<and> calculateDailyConsumption 129600000 rollback_store (Some 1) = (Inr None, rollback_store)"
proof -
  have m: "getMidnightMeterReading rollback_store
             (case Some 1 of None \<Rightarrow> getTodayDate 129600000 | Some d \<Rightarrow> d)
           = Inr (Some (example_meter 86460000 100 (Some 1)))"
    by (simp add: example_defs query_defs)
  have c: "getLatestMeterReading rollback_store
           = Inr (Some (example_meter 122400000 95 (Some 1)))"
    by (simp add: example_defs query_defs)
  have neg: "js_num (consumption_value (example_meter 122400000 95 (Some 1)))
             - js_num (consumption_value (example_meter 86460000 100 (Some 1))) < 0"
    by (simp add: example_defs)
  have ok: "\<not> failing rollback_store CreateDailyTable"
    by (simp add: example_defs)
  from negative_consumption_not_persisted [OF m c neg] m c ok
  show ?thesis by simp
qed

section \<open>The confidence score\<close>

text \<open>
  C4, as the claim states it: a stored anchor confidence of exactly 0 enters the minimum as 0.
  On a store whose anchor has confidence 0 and whose current reading has confidence 1 the
  code yields 0.8 * 0.7 = 0.56, where the formula of the specification yields 0.
\<close>

theorem zero_confidence_counterexample:
  "getMidnightMeterReading zero_confidence_store 1
     = Inr (Some (example_meter 86460000 100 (Some 0)))
   \<and> getLatestMeterReading zero_confidence_store
     = Inr (Some (example_meter 122400000 105 (Some 1)))
   \<and> fst (calculateDailyConsumption 129600000 zero_confidence_store (Some 1))
     = Inr (Some zero_confidence_result)
   \<and> confidenceScore zero_confidence_result = 0.56
   \<and> spec_confidence (confidence (example_meter 86460000 100 (Some 0)))
        (confidence (example_meter 122400000 105 (Some 1)))
        (hasMonitoringGaps zero_confidence_result) = 0
   \<and> confidenceScore zero_confidence_result
       \<noteq> spec_confidence (confidence (example_meter 86460000 100 (Some 0)))
            (confidence (example_meter 122400000 105 (Some 1)))
            (hasMonitoringGaps zero_confidence_result)"
  by (simp add: calc_defs example_defs2 query_defs spec_confidence_def)

text \<open>
  C4, amended. For every successful \<open>calculateDailyConsumption\<close>, the confidence score is
  the minimum of the anchor's and the current reading's confidence, each replaced by 0.8
  when it is absent or equal to 0, multiplied by 0.7 when the day has monitoring gaps and
  by 1 otherwise.
\<close>

theorem confidence_score_formula:
  assumes "calculateDailyConsumption now db dateArg = (Inr (Some r), db')"
  shows "\<exists>m c.
      getMidnightMeterReading db (date r) = Inr (Some m)
    \<and> getLatestMeterReading db = Inr (Some c)
    \<and> confidenceScore r =
        min (case confidence m of None \<Rightarrow> 0.8 | Some x \<Rightarrow> if x = 0 then 0.8 else x)
            (case confidence c of None \<Rightarrow> 0.8 | Some x \<Rightarrow> if x = 0 then 0.8 else x)
          * (if hasMonitoringGaps r then 0.7 else 1.0)"
proof -
  from calculate_success_reads [OF assms] obtain m c cov where
    m: "getMidnightMeterReading db (date r) = Inr (Some m)"
    and c: "getLatestMeterReading db = Inr (Some c)"
    and cov: "checkMonitoringCoverage db (date r) = Inr cov"
    by blast
  from calculate_success_values(3,4) [OF assms m c cov]
  have "confidenceScore r =
        min (case confidence m of None \<Rightarrow> 0.8 | Some x \<Rightarrow> if x = 0 then 0.8 else x)
            (case confidence c of None \<Rightarrow> 0.8 | Some x \<Rightarrow> if x = 0 then 0.8 else x)
          * (if hasMonitoringGaps r then 0.7 else 1.0)"
    by (cases "confidence m"; cases "confidence c"; simp)
  with m c show ?thesis by blast
qed

theorem confidence_score_formula_witness:
  "calculateDailyConsumption 129600000 zero_confidence_store (Some 1)
     = (Inr (Some zero_confidence_result),
        zero_confidence_store\<lparr> daily_consumption := [1 \<mapsto> zero_confidence_result] \<rparr>)
   \<and> (\<exists>m c.
      getMidnightMeterReading zero_confidence_store (date zero_confidence_result) = Inr (Some m)
    \<and> getLatestMeterReading zero_confidence_store = Inr (Some c)
    \<and> confidenceScore zero_confidence_result =
        min (case confidence m of None \<Rightarrow> 0.8 | Some x \<Rightarrow> if x = 0 then 0.8 else x)
            (case confidence c of None \<Rightarrow> 0.8 | Some x \<Rightarrow> if x = 0 then 0.8 else x)
          * (if hasMonitoringGaps zero_confidence_result then 0.7 else 1.0))"
proof -
  have "fst (calculateDailyConsumption 129600000 zero_confidence_store (Some 1))
     = Inr (Some zero_confidence_result)"
    by (simp add: calc_defs example_defs2 query_defs)
  moreover have "snd (calculateDailyConsumption 129600000 zero_confidence_store (Some 1))
     = zero_confidence_store\<lparr> daily_consumption := [1 \<mapsto> zero_confidence_result] \<rparr>"
    by (simp add: calc_defs example_defs2 query_defs numeral_2_eq_2)
  ultimately have run: "calculateDailyConsumption 129600000 zero_confidence_store (Some 1)
     = (Inr (Some zero_confidence_result),
        zero_confidence_store\<lparr> daily_consumption := [1 \<mapsto> zero_confidence_result] \<rparr>)"
    by (simp add: prod_eq_iff)
  from confidence_score_formula [OF run] run show ?thesis by simp
qed

text \<open>
  C5, as the claim states it: the score lies in [0, 1] for every input confidence. With both
  stored confidences equal to 1.5 and a day with gaps the score is 1.05.
\<close>

theorem confidence_unbounded_counterexample:
  "fst (calculateDailyConsumption 129600000 overconfident_store (Some 1))
     = Inr (Some overconfident_result)
   \<and> confidenceScore overconfident_result > 1"
  by (simp add: calc_defs example_defs2 query_defs)

text \<open>
  C5, amended. For every successful \<open>calculateDailyConsumption\<close> on a store in which the
  confidence of every grid meter reading is absent or lies in [0, 1], the confidence score
  lies in [0, 1].
\<close>

theorem confidence_in_unit_interval:
  assumes "calculateDailyConsumption now db dateArg = (Inr (Some r), db')"
    and "\<forall>p \<in> set (power_data db).
           category p = ''meter_reading'' \<and> source p = ''grid'' \<longrightarrow>
           (\<forall>x. confidence p = Some x \<longrightarrow> 0 \<le> x \<and> x \<le> 1)"
  shows "0 \<le> confidenceScore r \<and> confidenceScore r \<le> 1"
proof -
  from calculate_success_reads [OF assms(1)] obtain m c cov where
    m: "getMidnightMeterReading db (date r) = Inr (Some m)"
    and c: "getLatestMeterReading db = Inr (Some c)"
    and cov: "checkMonitoringCoverage db (date r) = Inr cov"
    by blast
  from midnight_reading_member [OF m] assms(2)
  have "\<forall>x. confidence m = Some x \<longrightarrow> 0 \<le> x \<and> x \<le> 1" by blast
  from js_or_unit [OF this]
  have bm: "0 \<le> js_or (confidence m) 0.8" "js_or (confidence m) 0.8 \<le> 1" by simp_all
  from latest_reading_member [OF c] assms(2)
  have "\<forall>x. confidence c = Some x \<longrightarrow> 0 \<le> x \<and> x \<le> 1" by blast
  from js_or_unit [OF this]
  have bc: "0 \<le> js_or (confidence c) 0.8" "js_or (confidence c) 0.8 \<le> 1" by simp_all
  define s where "s = min (js_or (confidence m) 0.8) (js_or (confidence c) 0.8)"
  from bm bc have s: "0 \<le> s" "s \<le> 1" by (simp_all add: s_def min_def)
  from calculate_success_values(4) [OF assms(1) m c cov]
  have "confidenceScore r = s * (if hasGaps cov then 0.7 else 1)"
    by (simp add: s_def)
  moreover from s have "0 \<le> s * 0.7" "s * 0.7 \<le> 1" by simp_all
  ultimately show ?thesis using s by (simp split: if_splits)
qed

theorem confidence_in_unit_interval_witness:
  "fst (calculateDailyConsumption 216000000 two_day_store (Some 1)) = Inr (Some two_day_result)
   \<and> 0 \<le> confidenceScore two_day_result \<and> confidenceScore two_day_result \<le> 1"
proof -
  have f: "fst (calculateDailyConsumption 216000000 two_day_store (Some 1))
             = Inr (Some two_day_result)"
    by (simp add: calc_defs example_defs query_defs)
  then have run: "calculateDailyConsumption 216000000 two_day_store (Some 1)
      = (Inr (Some two_day_result),
         snd (calculateDailyConsumption 216000000 two_day_store (Some 1)))"
    by (simp add: prod_eq_iff)
  have ok: "\<forall>p \<in> set (power_data two_day_store).
           category p = ''meter_reading'' \<and> source p = ''grid'' \<longrightarrow>
           (\<forall>x. confidence p = Some x \<longrightarrow> 0 \<le> x \<and> x \<le> 1)"
    by (simp add: example_defs)
  from confidence_in_unit_interval [OF run ok] f show ?thesis by simp
qed

section \<open>Backfill\<close>




section \<open>Storage failures\<close>

text \<open>
  C9, as the claim states it: a storage failure during \<open>calculateDailyConsumption\<close> is
  propagated to the caller. When the midnight query fails, the call returns null.
\<close>

theorem storage_failure_counterexample:
  "failing (failing_store SelectMidnight) SelectMidnight
   \<and> calculateDailyConsumption 216000000 (failing_store SelectMidnight) (Some 1)
       = (Inr None, failing_store SelectMidnight)
   \<and> fst (calculateDailyConsumption 216000000 (failing_store SelectMidnight) (Some 1))
       \<noteq> Inl StoreIOError"
  by (simp add: calc_defs example_defs2 query_defs)

text \<open>
  C9, amended. A failure of the table creation in \<open>initDatabase\<close> is propagated to the
  caller of \<open>calculateDailyConsumption\<close>, and through the loop of
  \<open>backfillDailyConsumptions\<close>, which has no \<open>catch\<close>, to the caller of the batch.
  When the table creation succeeds, a failure of any of the three queries or of the upsert
  makes \<open>calculateDailyConsumption\<close> return null, with the store unchanged.
\<close>

theorem storage_failure_absorbed:
  "(failing db CreateDailyTable \<longrightarrow>
      calculateDailyConsumption now db dateArg = (Inl StoreIOError, db))
   \<and> (\<not> failing db CreateDailyTable
        \<and> (failing db SelectMidnight \<or> failing db SelectLatest
             \<or> failing db SelectCoverage \<or> failing db UpsertDaily) \<longrightarrow>
      calculateDailyConsumption now db dateArg = (Inr None, db))
   \<and> (failing db CreateDailyTable \<and> 1 \<le> days \<longrightarrow>
      backfillDailyConsumptions clock db days = (Inl StoreIOError, db))"
proof -
  have init: "failing db CreateDailyTable \<Longrightarrow>
      calculateDailyConsumption n db x = (Inl StoreIOError, db)" for n x
    by (simp add: calculateDailyConsumption_def initDatabase_def)
  have caught: "\<not> failing db CreateDailyTable
        \<and> (failing db SelectMidnight \<or> failing db SelectLatest
             \<or> failing db SelectCoverage \<or> failing db UpsertDaily) \<longrightarrow>
      calculateDailyConsumption now db dateArg = (Inr None, db)"
    by (simp add: calculateDailyConsumption_def calculate_try_def initDatabase_def
        saveDailyConsumption_def getMidnightMeterReading_def getLatestMeterReading_def
        checkMonitoringCoverage_def Let_def
        split: sum.splits option.splits)
  have batch: "failing db CreateDailyTable \<and> 1 \<le> days \<longrightarrow>
      backfillDailyConsumptions clock db days = (Inl StoreIOError, db)"
    unfolding backfillDailyConsumptions_def
    by (subst backfill_loop.simps) (simp add: init)
  from init [of now dateArg] caught batch show ?thesis by blast
qed

theorem storage_failure_absorbed_witness:
  "failing (failing_store CreateDailyTable) CreateDailyTable
   \<and> calculateDailyConsumption 216000000 (failing_store CreateDailyTable) (Some 1)
       = (Inl StoreIOError, failing_store CreateDailyTable)
   \<and> backfillDailyConsumptions (steady_clock 216000000) (failing_store CreateDailyTable) 3
       = (Inl StoreIOError, failing_store CreateDailyTable)
   \<and> \<not> failing (failing_store UpsertDaily) CreateDailyTable
   \<and> failing (failing_store UpsertDaily) UpsertDaily
   \<and> calculateDailyConsumption 216000000 (failing_store UpsertDaily) (Some 1)
       = (Inr None, failing_store UpsertDaily)"
proof -
  have a: "failing (failing_store CreateDailyTable) CreateDailyTable"
    by (simp add: example_defs2)
  have b: "\<not> failing (failing_store UpsertDaily) CreateDailyTable"
    "failing (failing_store UpsertDaily) UpsertDaily"
    by (simp_all add: example_defs2)
  from storage_failure_absorbed [of "failing_store CreateDailyTable" 216000000 "Some 1" 3
      "steady_clock 216000000"]
    storage_failure_absorbed [of "failing_store UpsertDaily" 216000000 "Some 1" 3
      "steady_clock 216000000"] a b
  show ?thesis by simp
qed

section \<open>Historical lookup\<close>

text \<open>
  C10. For every date other than today, every target time and every store contents (with a
  database that can be initialised), \<open>getConsumptionAtTime\<close> returns null and leaves
  the store unchanged: the call of the missing method \<open>getMidnightReading\<close> throws
  before the lookup of a reading up to the target time, and the \<open>catch\<close> returns null.
\<close>

theorem past_date_lookup_returns_null:
  assumes "dateStr \<noteq> getTodayDate now"
    and "\<not> failing db CreateDailyTable"
  shows "getConsumptionAtTime now db dateStr targetTime = (Inr None, db)"
  using assms
  by (simp add: getConsumptionAtTime_def consumptionAtTime_try_def initDatabase_def
        getMidnightReading_def toISOString_def Let_def split: option.splits)

theorem past_date_lookup_returns_null_witness:
  "(1::int) \<noteq> getTodayDate 216000000
   \<and> \<not> failing two_day_store CreateDailyTable
   \<and> getConsumptionAtTime 216000000 two_day_store 1 (Some 129600000) = (Inr None, two_day_store)"
proof -
  have a: "(1::int) \<noteq> getTodayDate 216000000" by (simp add: getTodayDate_def)
  have b: "\<not> failing two_day_store CreateDailyTable" by (simp add: example_defs)
  from past_date_lookup_returns_null [OF a b, of "Some 129600000"] a b
  show ?thesis by simp
qed

section \<open>Status events\<close>






end
